theory Spec2Isabelle
  imports Complex_Main "HOL-Library.Multiset"
begin

section \<open>The GPU backend: \<^verbatim>\<open>cuda_heat.cu\<close> as written out by \<^verbatim>\<open>cuda_heat.py\<close>\<close>

text \<open>
  A \<^verbatim>\<open>double\<close> is modelled as a \<^typ>\<open>real\<close>: the arithmetic of the kernel is read
  as exact arithmetic, rounding is not modelled. A C \<^verbatim>\<open>int\<close> is an \<^typ>\<open>int\<close>; the
  indices computed below stay far inside 32 bits for the grid that \<^verbatim>\<open>main\<close> uses
  (200 by 200 cells), so no wrap-around is written out for them.

  Device memory is an explicit store: every \<^verbatim>\<open>cudaMalloc\<close> yields one allocation, a
  device pointer names an allocation, and the store maps an allocation and an offset
  (in doubles) to the value held there. Two pointers may name the same allocation, so
  aliasing is expressible.
\<close>

datatype devptr = Alloc1 | Alloc2

type_synonym device_memory = "devptr \<Rightarrow> int \<Rightarrow> real"

text \<open>\<^verbatim>\<open>#define IDX(i,j,N) ((i)*(N)+(j))\<close>\<close>

definition IDX :: "int \<Rightarrow> int \<Rightarrow> int \<Rightarrow> int" where
  "IDX i j N = i * N + j"

text \<open>
  A thread of a launch is identified by its \<^verbatim>\<open>blockIdx\<close> and \<^verbatim>\<open>threadIdx\<close>; only the
  \<^verbatim>\<open>x\<close> and \<^verbatim>\<open>y\<close> components are used, written as pairs.
\<close>

type_synonym dim2 = "nat \<times> nat"
type_synonym thread = "dim2 \<times> dim2"

text \<open>
  The body of \<^verbatim>\<open>update_kernel\<close>, run by one thread on the store: five cells of \<^verbatim>\<open>u\<close>
  are read, one cell of \<^verbatim>\<open>uNew\<close> is written, and a thread outside the interior does
  nothing.
\<close>

definition update_kernel ::
  "devptr \<Rightarrow> devptr \<Rightarrow> int \<Rightarrow> int \<Rightarrow> real \<Rightarrow> real \<Rightarrow> real \<Rightarrow> real \<Rightarrow>
   dim2 \<Rightarrow> thread \<Rightarrow> device_memory \<Rightarrow> device_memory" where
  "update_kernel u uNew Nx Ny dx dy alpha dt blockDim t m =
     (let blockIdx = fst t; threadIdx = snd t;
          i = int (fst blockIdx * fst blockDim + fst threadIdx) + 1;
          j = int (snd blockIdx * snd blockDim + snd threadIdx) + 1
      in if i < Nx - 1 \<and> j < Ny - 1 then
           (let uxx = (m u (IDX (i + 1) j Ny) - 2 * m u (IDX i j Ny) + m u (IDX (i - 1) j Ny))
                        / (dx * dx);
                uyy = (m u (IDX i (j + 1) Ny) - 2 * m u (IDX i j Ny) + m u (IDX i (j - 1) Ny))
                        / (dy * dy)
            in m(uNew := (m uNew)(IDX i j Ny := m u (IDX i j Ny) + alpha * dt * (uxx + uyy))))
         else m)"

text \<open>
  The launch configuration of \<^verbatim>\<open>main\<close>: \<^verbatim>\<open>dim3 block(16, 16)\<close> and
  \<^verbatim>\<open>dim3 grid((Nx-2+block.x-1)/block.x, (Ny-2+block.y-1)/block.y)\<close>. The components of
  a \<^verbatim>\<open>dim3\<close> are \<^verbatim>\<open>unsigned int\<close>, so the sum is taken modulo \<open>2 ^ 32\<close>.
\<close>

definition block :: dim2 where
  "block = (16, 16)"

definition grid_extent :: "int \<Rightarrow> nat \<Rightarrow> nat" where
  "grid_extent N b = nat ((N - 2 + int b - 1) mod 2 ^ 32) div b"

definition grid :: "int \<Rightarrow> int \<Rightarrow> dim2" where
  "grid Nx Ny = (grid_extent Nx (fst block), grid_extent Ny (snd block))"

text \<open>All threads of a launch with the given grid and block dimensions.\<close>

definition launch_threads :: "dim2 \<Rightarrow> dim2 \<Rightarrow> thread list" where
  "launch_threads g b =
     concat (map (\<lambda>bx. concat (map (\<lambda>by. concat (map (\<lambda>tx. map (\<lambda>ty. ((bx, by), (tx, ty)))
       [0..<snd b]) [0..<fst b])) [0..<snd g])) [0..<fst g])"

text \<open>
  The hardware runs the threads of a launch in an order the program does not choose.
  A schedule is one such order: a list in which every thread of the launch occurs
  exactly once. Running a launch under a schedule runs the thread bodies in that order.
\<close>

definition is_schedule :: "dim2 \<Rightarrow> dim2 \<Rightarrow> thread list \<Rightarrow> bool" where
  "is_schedule g b sched = (mset sched = mset (launch_threads g b))"

definition run_launch ::
  "(thread \<Rightarrow> device_memory \<Rightarrow> device_memory) \<Rightarrow> thread list \<Rightarrow> device_memory \<Rightarrow> device_memory" where
  "run_launch body sched m = fold body sched m"

text \<open>
  The state of the time-stepping loop of \<^verbatim>\<open>main\<close>: the device store and the two
  pointer variables \<^verbatim>\<open>d_u\<close> and \<^verbatim>\<open>d_uNew\<close>.
\<close>

record device_state =
  memory :: device_memory
  d_u :: devptr
  d_uNew :: devptr

text \<open>
  One iteration of the loop: the kernel launch
  \<^verbatim>\<open>update_kernel<<<grid, block>>>(d_u, d_uNew, Nx, Ny, dx, dy, alpha, dt)\<close>
  followed by the pointer swap.
\<close>

definition time_step ::
  "int \<Rightarrow> int \<Rightarrow> real \<Rightarrow> real \<Rightarrow> real \<Rightarrow> real \<Rightarrow> thread list \<Rightarrow> device_state \<Rightarrow> device_state" where
  "time_step Nx Ny dx dy alpha dt sched s =
     (let m' = run_launch (update_kernel (d_u s) (d_uNew s) Nx Ny dx dy alpha dt block) sched
                 (memory s)
      in \<lparr>memory = m', d_u = d_uNew s, d_uNew = d_u s\<rparr>)"

text \<open>
  The loop \<^verbatim>\<open>for(int n=0; n<Nt; n++)\<close>: one schedule per iteration, in the order of the
  iterations, so the list of schedules has \<^verbatim>\<open>Nt\<close> elements.
\<close>

fun time_stepping ::
  "int \<Rightarrow> int \<Rightarrow> real \<Rightarrow> real \<Rightarrow> real \<Rightarrow> real \<Rightarrow> thread list list \<Rightarrow> device_state \<Rightarrow> device_state" where
  "time_stepping Nx Ny dx dy alpha dt [] s = s"
| "time_stepping Nx Ny dx dy alpha dt (sched # scheds) s =
     time_stepping Nx Ny dx dy alpha dt scheds (time_step Nx Ny dx dy alpha dt sched s)"

text \<open>
  The derived quantities of \<^verbatim>\<open>main\<close>:
  \<^verbatim>\<open>double dx = Lx/(Nx-1), dy = Ly/(Ny-1);\<close> and
  \<^verbatim>\<open>double dt = 0.25 * fmin(dx*dx, dy*dy) / alpha;\<close>
\<close>

definition spacing :: "real \<Rightarrow> int \<Rightarrow> real" where
  "spacing L N = L / real_of_int (N - 1)"

definition derived_dt :: "real \<Rightarrow> real \<Rightarrow> real \<Rightarrow> real" where
  "derived_dt alpha dx dy = 0.25 * min (dx * dx) (dy * dy) / alpha"

text \<open>
  The initial condition written by the host loop,
  \<^verbatim>\<open>x = i*dx - Lx/2, y = j*dy - Ly/2; u[IDX(i,j,Ny)] = exp(-50*(x*x + y*y))\<close>,
  as the value at cell \<open>(i, j)\<close>.
\<close>

definition initial_value :: "real \<Rightarrow> real \<Rightarrow> real \<Rightarrow> real \<Rightarrow> int \<Rightarrow> int \<Rightarrow> real" where
  "initial_value Lx Ly dx dy i j =
     (let x = real_of_int i * dx - Lx / 2; y = real_of_int j * dy - Ly / 2
      in exp (- 50 * (x * x + y * y)))"

text \<open>
  The host array \<^verbatim>\<open>u\<close> after the initialisation loops, as a function of the offset:
  offset \<open>k\<close> with \<open>0 \<le> k < Nx * Ny\<close> is cell \<open>(k div Ny, k mod Ny)\<close>.
\<close>

definition host_u :: "real \<Rightarrow> real \<Rightarrow> real \<Rightarrow> real \<Rightarrow> int \<Rightarrow> int \<Rightarrow> real" where
  "host_u Lx Ly dx dy Ny k = initial_value Lx Ly dx dy (k div Ny) (k mod Ny)"


text \<open>
  What a program prints or writes is kept as data: a printed line is the list of the
  pieces its format string is made of, a literal text or a formatted value together
  with its conversion. How a number is turned into digits is not modelled.
\<close>

datatype error = ValueError | AttributeError | FileNotFoundError

datatype piece =
    Lit string
  | FStr string string
  | FNum real string
  | FShape "nat \<times> nat"
  | FExc error

type_synonym line = "piece list"

text \<open>
  The device side of \<^verbatim>\<open>main\<close> before the loop: \<^verbatim>\<open>d_u\<close> and \<^verbatim>\<open>d_uNew\<close> come from two
  calls of \<^verbatim>\<open>cudaMalloc\<close>; \<^verbatim>\<open>cudaMemcpy(d_u, u, ...)\<close> fills the first from the host
  array. Nothing is ever copied into the second allocation before the loop, so it holds
  whatever the device memory held: \<open>uninit\<close>, a parameter of the model.
\<close>

definition initial_state :: "(int \<Rightarrow> real) \<Rightarrow> (int \<Rightarrow> real) \<Rightarrow> device_state" where
  "initial_state host uninit =
     \<lparr>memory = (\<lambda>p. case p of Alloc1 \<Rightarrow> host | Alloc2 \<Rightarrow> uninit),
      d_u = Alloc1, d_uNew = Alloc2\<rparr>"

text \<open>
  \<^verbatim>\<open>int main(int argc, char *argv[])\<close>. Besides the arguments, a run depends on the
  content of the second allocation (\<open>uninit\<close>), on the order in which the device runs
  the threads of the launch of iteration \<open>n\<close> (\<open>sched_of n\<close>) and on the time the
  events measure (\<open>ms\<close>, in milliseconds). The result is what is printed on standard
  output, line by line, and the exit code.
\<close>

definition cuda_heat_main :: "string list \<Rightarrow> (int \<Rightarrow> real) \<Rightarrow> (nat \<Rightarrow> thread list) \<Rightarrow> real \<Rightarrow> line list \<times> int" where
  "cuda_heat_main argv uninit sched_of ms =
     (let Nx = 200; Ny = 200;
          Nt = 1000;
          Lx = 1; Ly = 1;
          alpha = 1 / 10000;
          dx = spacing Lx Nx; dy = spacing Ly Ny;
          dt = derived_dt alpha dx dy;
          s0 = initial_state (host_u Lx Ly dx dy Ny) uninit;
          s = time_stepping Nx Ny dx dy alpha dt (map sched_of [0..<nat Nt]) s0;
          elapsed = ms * (1 / 1000);
          u = memory s (d_u s);
          updates = real_of_int (Nt * (Nx - 2) * (Ny - 2));
          mlups = updates / elapsed / 1000000
      in ([[Lit ''CUDA run (GPU):''],
           [Lit ''  Time           : '', FNum elapsed ''%.6f'', Lit '' s''],
           [Lit ''  Throughput     : '', FNum mlups ''%.2f'', Lit '' MLUPS''],
           [Lit ''  u_center (mid) : '', FNum (u (IDX (Nx div 2) (Ny div 2) Ny)) ''%f'']],
          0))"

text \<open>
  The key of a printed line in the sense of a \<^verbatim>\<open>Key: value\<close> line: its text up to the
  first colon, without the surrounding blanks.
\<close>

definition strip :: "string \<Rightarrow> string" where
  "strip s = rev (dropWhile (\<lambda>c. c = CHR '' '') (rev (dropWhile (\<lambda>c. c = CHR '' '') s)))"

definition line_key :: "line \<Rightarrow> string" where
  "line_key l = (case l of Lit s # _ \<Rightarrow> strip (takeWhile (\<lambda>c. c \<noteq> CHR '':'') s) | _ \<Rightarrow> [])"

subsection \<open>Notions used to state what a launch does\<close>

text \<open>The cell \<open>(i, j)\<close> a thread computes from its block and thread index.\<close>

definition thread_cell :: "dim2 \<Rightarrow> thread \<Rightarrow> int \<times> int" where
  "thread_cell blockDim t =
     (int (fst (fst t) * fst blockDim + fst (snd t)) + 1,
      int (snd (fst t) * snd blockDim + snd (snd t)) + 1)"

text \<open>The guard of the kernel, \<^verbatim>\<open>i < Nx-1 && j < Ny-1\<close>, for a cell with \<open>1 \<le> i\<close>, \<open>1 \<le> j\<close>.\<close>

definition interior :: "int \<Rightarrow> int \<Rightarrow> int \<times> int \<Rightarrow> bool" where
  "interior Nx Ny c = (1 \<le> fst c \<and> fst c < Nx - 1 \<and> 1 \<le> snd c \<and> snd c < Ny - 1)"

text \<open>The value the kernel stores for cell \<open>(i, j)\<close>, read from the buffer \<open>U\<close>.\<close>

definition stencil :: "(int \<Rightarrow> real) \<Rightarrow> int \<Rightarrow> real \<Rightarrow> real \<Rightarrow> real \<Rightarrow> real \<Rightarrow> int \<Rightarrow> int \<Rightarrow> real" where
  "stencil U Ny dx dy alpha dt i j =
     U (IDX i j Ny) + alpha * dt *
       ((U (IDX (i + 1) j Ny) - 2 * U (IDX i j Ny) + U (IDX (i - 1) j Ny)) / (dx * dx)
        + (U (IDX i (j + 1) Ny) - 2 * U (IDX i j Ny) + U (IDX i (j - 1) Ny)) / (dy * dy))"

section \<open>The validation harness: \<^verbatim>\<open>heat_error_analysis.py\<close>\<close>

text \<open>
  A two-dimensional numpy array of doubles (what \<^verbatim>\<open>DataFrame.values\<close> yields) is its
  shape, rows by columns, and the value at every position inside the shape. Either
  extent may be zero. Cell values are reals: \<^verbatim>\<open>nan\<close> and the infinities are not modelled.
\<close>

record 'a ndarray =
  shape :: "nat \<times> nat"
  item :: "nat \<Rightarrow> nat \<Rightarrow> 'a"

text \<open>All elements in row-major order, as the reductions of numpy see them.\<close>

definition ravel :: "'a ndarray \<Rightarrow> 'a list" where
  "ravel a = concat (map (\<lambda>i. map (item a i) [0..<snd (shape a)]) [0..<fst (shape a)])"

text \<open>
  The element-wise operations, used by the program on arrays of equal shape only (it
  compares the shapes first), so broadcasting is not modelled.
\<close>

definition np_subtract :: "real ndarray \<Rightarrow> real ndarray \<Rightarrow> real ndarray" where
  "np_subtract a b = \<lparr>shape = shape a, item = (\<lambda>i j. item a i j - item b i j)\<rparr>"

definition np_abs :: "real ndarray \<Rightarrow> real ndarray" where
  "np_abs a = \<lparr>shape = shape a, item = (\<lambda>i j. \<bar>item a i j\<bar>)\<rparr>"

definition np_square :: "real ndarray \<Rightarrow> real ndarray" where
  "np_square a = \<lparr>shape = shape a, item = (\<lambda>i j. item a i j * item a i j)\<rparr>"

definition np_power :: "real ndarray \<Rightarrow> nat \<Rightarrow> real ndarray" where
  "np_power a n = \<lparr>shape = shape a, item = (\<lambda>i j. item a i j ^ n)\<rparr>"

definition np_zeros_like :: "real ndarray \<Rightarrow> real ndarray" where
  "np_zeros_like a = \<lparr>shape = shape a, item = (\<lambda>i j. 0)\<rparr>"

definition np_greater :: "real ndarray \<Rightarrow> real \<Rightarrow> bool ndarray" where
  "np_greater a c = \<lparr>shape = shape a, item = (\<lambda>i j. item a i j > c)\<rparr>"

text \<open>
  \<^verbatim>\<open>np.divide(x1, x2, out=out, where=cond)\<close>: the quotient where \<open>cond\<close> holds, and what
  \<open>out\<close> held elsewhere; no division takes place there.
\<close>

definition np_divide ::
  "real ndarray \<Rightarrow> real ndarray \<Rightarrow> real ndarray \<Rightarrow> bool ndarray \<Rightarrow> real ndarray" where
  "np_divide x1 x2 out cond =
     \<lparr>shape = shape x1,
      item = (\<lambda>i j. if item cond i j then item x1 i j / item x2 i j else item out i j)\<rparr>"

text \<open>
  The reductions. On an array without elements \<^verbatim>\<open>np.max\<close> raises \<^verbatim>\<open>ValueError\<close>, while
  \<^verbatim>\<open>np.mean\<close> and \<^verbatim>\<open>np.std\<close> warn and return \<^verbatim>\<open>nan\<close>; both callers below go on to
  \<^verbatim>\<open>np.max\<close> of an array of the same shape before they return anything, so the value
  of \<open>np_mean\<close> on an empty array is never observed.
\<close>

definition np_mean :: "real ndarray \<Rightarrow> real" where
  "np_mean a = sum_list (ravel a) / real (length (ravel a))"

definition np_max :: "real ndarray \<Rightarrow> error + real" where
  "np_max a = (case ravel a of [] \<Rightarrow> Inl ValueError | x # xs \<Rightarrow> Inr (fold max xs x))"

definition np_sqrt :: "real \<Rightarrow> real" where
  "np_sqrt x = sqrt x"

definition np_std :: "real ndarray \<Rightarrow> real" where
  "np_std a =
     (let arrmean = np_mean a;
          x = \<lparr>shape = shape a, item = (\<lambda>i j. item a i j - arrmean)\<rparr>
      in sqrt (np_mean (np_square x)))"

subsection \<open>Effects: standard output, files written, exceptions\<close>

record world =
  stdout :: "line list"
  files :: "string \<Rightarrow> line list option"

type_synonym 'a py = "world \<Rightarrow> (error + 'a) \<times> world"

definition py_return :: "'a \<Rightarrow> 'a py" where
  "py_return x w = (Inr x, w)"

definition py_raise :: "error \<Rightarrow> 'a py" where
  "py_raise e w = (Inl e, w)"

definition py_bind :: "'a py \<Rightarrow> ('a \<Rightarrow> 'b py) \<Rightarrow> 'b py" where
  "py_bind m f w = (case m w of (Inl e, w') \<Rightarrow> (Inl e, w') | (Inr x, w') \<Rightarrow> f x w')"

definition py_lift :: "error + 'a \<Rightarrow> 'a py" where
  "py_lift r w = (r, w)"

text \<open>\<^verbatim>\<open>try: m except e: handler\<close>\<close>

definition py_except :: "'a py \<Rightarrow> error \<Rightarrow> 'a py \<Rightarrow> 'a py" where
  "py_except m e handler w =
     (case m w of (Inl e', w') \<Rightarrow> if e' = e then handler w' else (Inl e', w') | r \<Rightarrow> r)"

definition print :: "line \<Rightarrow> unit py" where
  "print l w = (Inr (), w\<lparr>stdout := stdout w @ [l]\<rparr>)"

text \<open>\<^verbatim>\<open>with open(name, 'w') as f\<close> followed by the given writes.\<close>

definition write_file :: "string \<Rightarrow> line list \<Rightarrow> unit py" where
  "write_file name content w = (Inr (), w\<lparr>files := (files w)(name \<mapsto> content)\<rparr>)"

text \<open>Reading the attribute \<^verbatim>\<open>.shape\<close> of a value that may be \<^verbatim>\<open>None\<close>.\<close>

definition the_array :: "real ndarray option \<Rightarrow> real ndarray py" where
  "the_array d = (case d of None \<Rightarrow> py_raise AttributeError | Some a \<Rightarrow> py_return a)"

subsection \<open>\<^verbatim>\<open>load_heat_data\<close>\<close>

text \<open>
  A result file as the loader sees it. Its leading comment lines are classified by the
  branch of the loader they take, with the outcome of the conversion \<^verbatim>\<open>int(...)\<close> or
  \<^verbatim>\<open>float(...)\<close> (\<open>None\<close> when it raises \<^verbatim>\<open>ValueError\<close>); parsing the table is the work of
  \<^verbatim>\<open>pandas.read_csv\<close>, taken here by its outcome: an exception with its message, or the
  array \<^verbatim>\<open>data.values\<close>.
\<close>

datatype header_line =
    GridSize string
  | TimeSteps "int option"
  | FinalTime "real option"
  | Threads "int option"
  | OtherComment

record csv_file =
  header :: "header_line list"
  table :: "string + real ndarray"

record metadata =
  grid_size :: "string option"
  time_steps :: "int option"
  final_time :: "real option"
  threads :: "int option"

fun read_header :: "header_line list \<Rightarrow> metadata \<Rightarrow> error + metadata" where
  "read_header [] m = Inr m"
| "read_header (GridSize s # ls) m = read_header ls (m\<lparr>grid_size := Some s\<rparr>)"
| "read_header (TimeSteps None # ls) m = Inl ValueError"
| "read_header (TimeSteps (Some n) # ls) m = read_header ls (m\<lparr>time_steps := Some n\<rparr>)"
| "read_header (FinalTime None # ls) m = Inl ValueError"
| "read_header (FinalTime (Some t) # ls) m = read_header ls (m\<lparr>final_time := Some t\<rparr>)"
| "read_header (Threads None # ls) m = Inl ValueError"
| "read_header (Threads (Some n) # ls) m = read_header ls (m\<lparr>threads := Some n\<rparr>)"
| "read_header (OtherComment # ls) m = read_header ls m"

definition load_heat_data ::
  "(string \<Rightarrow> csv_file option) \<Rightarrow> string \<Rightarrow> (real ndarray option \<times> metadata option) py" where
  "load_heat_data fs filename =
     (case fs filename of
        None \<Rightarrow>
          py_bind (print [Lit ''Error: File '', FStr filename [], Lit '' not found!'']) (\<lambda>_.
          py_return (None, None))
      | Some f \<Rightarrow>
          py_bind (py_lift (read_header (header f)
              \<lparr>grid_size = None, time_steps = None, final_time = None, threads = None\<rparr>))
            (\<lambda>metadata.
          case table f of
            Inr heat_data \<Rightarrow>
              py_bind (print [Lit ''Loaded '', FStr filename [], Lit '': Shape '',
                              FShape (shape heat_data)]) (\<lambda>_.
              py_return (Some heat_data, Some metadata))
          | Inl e \<Rightarrow>
              py_bind (print [Lit ''Error loading '', FStr filename [], Lit '': '', FStr e []]) (\<lambda>_.
              py_return (None, None))))"


subsection \<open>\<^verbatim>\<open>calculate_errors\<close>\<close>

record error_summary =
  mse :: real
  rmse :: real
  max_absolute_error :: real

record error_metrics = error_summary +
  "method" :: string
  mean_absolute_error :: real
  max_relative_error :: real
  mean_relative_error :: real
  std_absolute_error :: real
  absolute_errors :: "real ndarray"
  relative_errors :: "real ndarray"

definition calculate_errors ::
  "real ndarray option \<Rightarrow> real ndarray option \<Rightarrow> string \<Rightarrow> error_metrics option py" where
  "calculate_errors reference_data comparison_data method_name =
     (case (reference_data, comparison_data) of
        (Some reference, Some comparison) \<Rightarrow>
          if shape reference \<noteq> shape comparison then
            py_bind (print [Lit ''Error: Shape mismatch for '', FStr method_name []]) (\<lambda>_.
            py_bind (print [Lit ''Reference shape: '', FShape (shape reference),
                            Lit '', Comparison shape: '', FShape (shape comparison)]) (\<lambda>_.
            py_return None))
          else
            (let abs_errs = np_abs (np_subtract reference comparison);
                 rel_errs = np_divide abs_errs (np_abs reference) (np_zeros_like abs_errs)
                              (np_greater (np_abs reference) (1 / 10 ^ 15));
                 mse_v = np_mean (np_square (np_subtract reference comparison));
                 rmse_v = np_sqrt mse_v
             in py_bind (py_lift (np_max abs_errs)) (\<lambda>max_abs_error.
                let mean_abs_error = np_mean abs_errs
                in py_bind (py_lift (np_max rel_errs)) (\<lambda>max_rel_error.
                let mean_rel_error = np_mean rel_errs;
                    std_abs_error = np_std abs_errs
                in py_return (Some
                     \<lparr>mse = mse_v, rmse = rmse_v, max_absolute_error = max_abs_error, method = method_name,
                      mean_absolute_error = mean_abs_error,
                      max_relative_error = max_rel_error,
                      mean_relative_error = mean_rel_error,
                      std_absolute_error = std_abs_error,
                      absolute_errors = abs_errs,
                      relative_errors = rel_errs\<rparr>))))
      | _ \<Rightarrow> py_return None)"

subsection \<open>\<^verbatim>\<open>generate_error_report\<close>\<close>

text \<open>\<^verbatim>\<open>str.upper\<close> on the letters a to z.\<close>

definition upper :: "string \<Rightarrow> string" where
  "upper s = map (\<lambda>c. let n = (of_char c :: nat) in
                      if 97 \<le> n \<and> n \<le> 122 then char_of (n - 32) else c) s"

text \<open>
  The text the function writes, one element per call of \<^verbatim>\<open>f.write\<close> (line ends are left
  out). \<open>now\<close> is the time \<^verbatim>\<open>datetime.now()\<close> returns.
\<close>

definition report_text :: "(string \<times> 'a error_summary_scheme) list \<Rightarrow> string \<Rightarrow> line list" where
  "report_text all_errors now =
     [[Lit (replicate 80 (CHR ''=''))],
      [Lit ''HEAT EQUATION SOLVER ERROR ANALYSIS REPORT''],
      [Lit (replicate 80 (CHR ''=''))],
      [Lit ''Generated on: '', FStr now ''%Y-%m-%d %H:%M:%S''],
      [Lit ''SUMMARY:''],
      [Lit ''This report compares parallel implementations against the serial baseline.''],
      [Lit ''ERROR METRICS COMPARISON:''],
      [Lit (replicate 80 (CHR ''-''))],
      [FStr ''Method'' ''<15'', Lit '' '', FStr ''MSE'' ''<12'', Lit '' '', FStr ''RMSE'' ''<12'',
       Lit '' '', FStr ''Max Abs Err'' ''<12'', Lit '' '', FStr ''Mean Abs Err'' ''<12''],
      [Lit (replicate 80 (CHR ''-''))]]
     @ concat (map (\<lambda>(method_name, error_data).
         [[FStr method_name ''<15'', Lit '' ''],
          [FNum (mse error_data) ''<12.2e'', Lit '' ''],
          [FNum (rmse error_data) ''<12.2e'', Lit '' ''],
          [FNum (max_absolute_error error_data) ''<12.2e'', Lit '' '']]) all_errors)
     @ [[Lit (replicate 80 (CHR ''=''))],
        [Lit ''DETAILED ANALYSIS:''],
        [Lit (replicate 80 (CHR ''=''))]]
     @ concat (map (\<lambda>(method_name, error_data).
         [[Lit ''METHOD: '', FStr (upper method_name) []],
          [Lit (replicate 40 (CHR ''-''))],
          [Lit ''Mean Square Error (MSE):           '', FNum (mse error_data) ''.6e''],
          [Lit ''Root Mean Square Error (RMSE):     '', FNum (rmse error_data) ''.6e''],
          [Lit ''Maximum Absolute Error:            '',
           FNum (max_absolute_error error_data) ''.6e'']]) all_errors)
     @ [[Lit ''INTERPRETATION GUIDE:''],
        [Lit ''...'']]"

definition generate_error_report ::
  "(string \<times> 'a error_summary_scheme) list \<Rightarrow> string \<Rightarrow> string \<Rightarrow> unit py" where
  "generate_error_report all_errors output_file now = write_file output_file (report_text all_errors now)"

subsection \<open>\<^verbatim>\<open>main\<close> of the harness\<close>

record error_data = error_summary +
  absolute_error :: "real ndarray"

text \<open>\<^verbatim>\<open>all_errors[method] = ...\<close> on a dictionary that keeps insertion order.\<close>

fun dict_set :: "(string \<times> 'v) list \<Rightarrow> string \<Rightarrow> 'v \<Rightarrow> (string \<times> 'v) list" where
  "dict_set [] k v = [(k, v)]"
| "dict_set ((k', v') # d) k v = (if k' = k then (k, v) # d else (k', v') # dict_set d k v)"

text \<open>The loop \<^verbatim>\<open>for method, data in comparison_methods.items()\<close>.\<close>

fun compare_methods ::
  "real ndarray \<Rightarrow> (string \<times> real ndarray) list \<Rightarrow> (string \<times> error_data) list \<Rightarrow>
   (string \<times> error_data) list py" where
  "compare_methods reference_data [] all_errors = py_return all_errors"
| "compare_methods reference_data ((method_name, data) # rest) all_errors =
     (if shape reference_data \<noteq> shape data then
        py_bind (print [Lit ''Skipping '', FStr method_name [], Lit '': Shape mismatch '',
                        FShape (shape data), Lit '' vs reference '',
                        FShape (shape reference_data)]) (\<lambda>_.
        compare_methods reference_data rest all_errors)
      else
        py_bind (print [Lit ''Calculating errors for '', FStr method_name [], Lit '' method...'']) (\<lambda>_.
        let abs_err = np_abs (np_subtract reference_data data);
            mse_v = np_mean (np_power (np_subtract reference_data data) 2);
            rmse_v = np_sqrt mse_v
        in py_bind (py_lift (np_max abs_err)) (\<lambda>max_abs_error.
           py_bind (print [Lit ''  MSE: '', FNum mse_v ''.6e'']) (\<lambda>_.
           py_bind (print [Lit ''  RMSE: '', FNum rmse_v ''.6e'']) (\<lambda>_.
           py_bind (print [Lit ''  Max Absolute Error: '', FNum max_abs_error ''.6e'']) (\<lambda>_.
           compare_methods reference_data rest
             (dict_set all_errors method_name
                \<lparr>mse = mse_v, rmse = rmse_v, max_absolute_error = max_abs_error,
                 absolute_error = abs_err\<rparr>)))))))"

text \<open>
  The body of the \<^verbatim>\<open>try\<close> block: four files are loaded, and after each load the shape of
  what was loaded is printed, which fails on \<^verbatim>\<open>None\<close>.
\<close>

definition load_all ::
  "(string \<Rightarrow> csv_file option) \<Rightarrow>
   (real ndarray \<times> real ndarray \<times> real ndarray \<times> real ndarray) py" where
  "load_all fs =
     py_bind (load_heat_data fs ''serial_heat_distribution.csv'') (\<lambda>(serial_data, serial_meta).
     py_bind (the_array serial_data) (\<lambda>serial.
     py_bind (print [Lit ''Loaded serial_heat_distribution.csv: Shape '', FShape (shape serial)]) (\<lambda>_.
     py_bind (load_heat_data fs ''openmp_heat_distribution.csv'') (\<lambda>(openmp_data, _).
     py_bind (the_array openmp_data) (\<lambda>openmp.
     py_bind (print [Lit ''Loaded openmp_heat_distribution.csv: Shape '', FShape (shape openmp)]) (\<lambda>_.
     py_bind (load_heat_data fs ''cuda_heat_distribution.csv'') (\<lambda>(cuda_data, _).
     py_bind (the_array cuda_data) (\<lambda>cuda.
     py_bind (print [Lit ''Loaded cuda_heat_distribution.csv: Shape '', FShape (shape cuda)]) (\<lambda>_.
     py_bind (load_heat_data fs ''hybrid_heat_distribution.csv'') (\<lambda>(hybrid_data, _).
     py_bind (the_array hybrid_data) (\<lambda>hybrid.
     py_bind (print [Lit ''Loaded hybrid_heat_distribution.csv: Shape '', FShape (shape hybrid)]) (\<lambda>_.
     py_return (serial, openmp, cuda, hybrid)))))))))))))"

text \<open>
  \<^verbatim>\<open>main\<close>, up to and including the message that the report was saved. Its last
  statement, the rendering of the error maps with matplotlib, is outside the model.
\<close>

definition heat_error_analysis_main :: "(string \<Rightarrow> csv_file option) \<Rightarrow> string \<Rightarrow> unit py" where
  "heat_error_analysis_main fs now =
     py_bind (print [Lit ''Heat Equation Solver Error Analysis'']) (\<lambda>_.
     py_bind (print [Lit (replicate 50 (CHR ''=''))]) (\<lambda>_.
     py_bind (py_except
                (py_bind (load_all fs) (\<lambda>loaded. py_return (Some loaded)))
                FileNotFoundError
                (py_bind (print [Lit ''Error: '', FExc FileNotFoundError,
                    Lit ''. Please ensure all heat distribution CSV files are present.'']) (\<lambda>_.
                 py_return None)))
       (\<lambda>loaded. case loaded of
          None \<Rightarrow> py_return ()
        | Some (serial_data, openmp_data, cuda_data, hybrid_data) \<Rightarrow>
            (let reference_data = serial_data;
                 comparison_methods =
                   [(''openmp'', openmp_data), (''cuda'', cuda_data), (''hybrid'', hybrid_data)]
             in py_bind (print [Lit ''Reference data shape: '', FShape (shape reference_data)]) (\<lambda>_.
                py_bind (compare_methods reference_data comparison_methods []) (\<lambda>all_errors.
                py_bind (print [Lit ''Generating error analysis report...'']) (\<lambda>_.
                py_bind (generate_error_report all_errors ''heat_error_report.txt'' now) (\<lambda>_.
                print [Lit ''Report saved as '', FStr ''heat_error_report.txt'' []]))))))))"

subsection \<open>Notions used to state what the validation pass does\<close>

text \<open>
  A file that the loader turns into an array: it exists, its header converts and
  \<^verbatim>\<open>read_csv\<close> yields the array.
\<close>

definition loads :: "(string \<Rightarrow> csv_file option) \<Rightarrow> string \<Rightarrow> real ndarray \<Rightarrow> bool" where
  "loads fs filename a =
     (case fs filename of
        None \<Rightarrow> False
      | Some f \<Rightarrow>
          (case read_header (header f)
                  \<lparr>grid_size = None, time_steps = None, final_time = None, threads = None\<rparr> of
             Inl e \<Rightarrow> False
           | Inr m \<Rightarrow> table f = Inr a))"

text \<open>
  A missing or corrupt file: it does not exist, or a header conversion raises, or
  \<^verbatim>\<open>read_csv\<close> raises.
\<close>

definition fails_to_load :: "(string \<Rightarrow> csv_file option) \<Rightarrow> string \<Rightarrow> bool" where
  "fails_to_load fs filename =
     (case fs filename of
        None \<Rightarrow> True
      | Some f \<Rightarrow>
          (case read_header (header f)
                  \<lparr>grid_size = None, time_steps = None, final_time = None, threads = None\<rparr> of
             Inl e \<Rightarrow> True
           | Inr m \<Rightarrow> (case table f of Inl e \<Rightarrow> True | Inr a \<Rightarrow> False)))"



section \<open>Properties of the GPU backend\<close>


lemma update_kernel_alt:
  "update_kernel u uNew Nx Ny dx dy alpha dt bd t m =
     (if interior Nx Ny (thread_cell bd t)
      then m(uNew := (m uNew)(IDX (fst (thread_cell bd t)) (snd (thread_cell bd t)) Ny :=
              stencil (m u) Ny dx dy alpha dt (fst (thread_cell bd t)) (snd (thread_cell bd t))))
      else m)"
  by (simp add: update_kernel_def thread_cell_def stencil_def interior_def Let_def)

lemma update_kernel_reads_kept:
  "u \<noteq> uNew \<Longrightarrow> update_kernel u uNew Nx Ny dx dy alpha dt bd t m u = m u"
  by (simp add: update_kernel_alt)

lemma run_launch_reads_kept:
  "u \<noteq> uNew \<Longrightarrow> run_launch (update_kernel u uNew Nx Ny dx dy alpha dt bd) sched m u = m u"
  unfolding run_launch_def
  by (induction sched arbitrary: m) (simp_all add: update_kernel_reads_kept)

lemma IDX_div: "0 \<le> j \<Longrightarrow> j < Ny \<Longrightarrow> IDX i j Ny div Ny = i"
  by (simp add: IDX_def)

lemma IDX_mod: "0 \<le> j \<Longrightarrow> j < Ny \<Longrightarrow> IDX i j Ny mod Ny = j"
  by (simp add: IDX_def)

lemma run_launch_writes:
  assumes "u \<noteq> uNew"
  shows "run_launch (update_kernel u uNew Nx Ny dx dy alpha dt bd) sched m uNew k =
     (if \<exists>t \<in> set sched. interior Nx Ny (thread_cell bd t) \<and>
            IDX (fst (thread_cell bd t)) (snd (thread_cell bd t)) Ny = k
      then stencil (m u) Ny dx dy alpha dt (k div Ny) (k mod Ny)
      else m uNew k)"
  unfolding run_launch_def
proof (induction sched arbitrary: m)
  case Nil
  show ?case by simp
next
  case (Cons t sched)
  let ?m' = "update_kernel u uNew Nx Ny dx dy alpha dt bd t m"
  have u': "?m' u = m u" using assms by (rule update_kernel_reads_kept)
  show ?case
  proof (cases "interior Nx Ny (thread_cell bd t) \<and>
            IDX (fst (thread_cell bd t)) (snd (thread_cell bd t)) Ny = k")
    case True
    then have j: "0 \<le> snd (thread_cell bd t)" "snd (thread_cell bd t) < Ny"
      by (auto simp: interior_def)
    have "?m' uNew k = stencil (m u) Ny dx dy alpha dt (k div Ny) (k mod Ny)"
      using True IDX_div [OF j] IDX_mod [OF j] by (auto simp: update_kernel_alt)
    with True u' show ?thesis by (simp add: Cons.IH)
  next
    case False
    then have "?m' uNew k = m uNew k"
      by (auto simp: update_kernel_alt)
    with False u' show ?thesis by (auto simp add: Cons.IH)
  qed
qed


lemma in_launch_threads:
  "((bx, by), (tx, ty)) \<in> set (launch_threads g b) \<longleftrightarrow>
     bx < fst g \<and> by < snd g \<and> tx < fst b \<and> ty < snd b"
  unfolding launch_threads_def by (simp add: image_iff)

lemma grid_extent_covers:
  assumes "1 \<le> i" "i \<le> N - 2" "N < 2 ^ 31"
  shows "nat ((i - 1) div 16) < grid_extent N 16"
proof -
  have "(N - 2 + int 16 - 1) mod 2 ^ 32 = N + 13"
    using assms by simp
  then have "grid_extent N 16 = nat (N + 13) div 16"
    by (simp add: grid_extent_def)
  also have "\<dots> = nat ((N + 13) div 16)"
    using assms by (simp add: nat_div_distrib)
  finally have g: "grid_extent N 16 = nat ((N + 13) div 16)" .
  have "(i - 1) div 16 < (N + 13) div 16"
    using assms by linarith
  moreover have "0 \<le> (i - 1) div 16" using assms by simp
  ultimately show ?thesis by (simp add: g)
qed

lemma interior_thread_exists:
  assumes "1 \<le> i" "i \<le> Nx - 2" "1 \<le> j" "j \<le> Ny - 2" "Nx < 2 ^ 31" "Ny < 2 ^ 31"
  shows "\<exists>t \<in> set (launch_threads (grid Nx Ny) block). thread_cell block t = (i, j)"
proof -
  let ?t = "((nat ((i - 1) div 16), nat ((j - 1) div 16)),
             (nat ((i - 1) mod 16), nat ((j - 1) mod 16)))"
  have "?t \<in> set (launch_threads (grid Nx Ny) block)"
    using grid_extent_covers [OF assms(1,2,5)] grid_extent_covers [OF assms(3,4,6)]
    by (simp add: in_launch_threads grid_def block_def nat_less_iff)
  moreover have "thread_cell block ?t = (i, j)"
  proof -
    have "0 \<le> (i - 1) div 16" "0 \<le> (j - 1) div 16" using assms by simp_all
    then show ?thesis by (simp add: thread_cell_def block_def)
  qed
  ultimately show ?thesis by blast
qed

text \<open>
  Claim C1. One launch of the kernel, whatever the order in which its threads run,
  leaves in the output buffer at every interior cell \<open>(i, j)\<close>, with \<open>1 \<le> i \<le> Nx - 2\<close> and
  \<open>1 \<le> j \<le> Ny - 2\<close>, the value
  \<open>U[i,j] + alpha * dt * ((U[i+1,j] - 2 U[i,j] + U[i-1,j]) / dx\<^sup>2 + (U[i,j+1] - 2 U[i,j] + U[i,j-1]) / dy\<^sup>2)\<close>
  computed from the input buffer \<open>U\<close> as it was before the launch; two stores that agree
  on \<open>U[i,j]\<close> and its four direct neighbours give the same value. The two buffers are
  distinct allocations and the grid fits the \<^verbatim>\<open>int\<close> offsets of the program.
\<close>

theorem update_kernel_interior:
  assumes "u \<noteq> uNew" and "is_schedule (grid Nx Ny) block sched"
    and "1 \<le> i" "i \<le> Nx - 2" "1 \<le> j" "j \<le> Ny - 2" and "Nx * Ny < 2 ^ 31"
  shows "run_launch (update_kernel u uNew Nx Ny dx dy alpha dt block) sched m uNew (IDX i j Ny) =
     m u (IDX i j Ny) + alpha * dt *
       ((m u (IDX (i + 1) j Ny) - 2 * m u (IDX i j Ny) + m u (IDX (i - 1) j Ny)) / dx\<^sup>2
        + (m u (IDX i (j + 1) Ny) - 2 * m u (IDX i j Ny) + m u (IDX i (j - 1) Ny)) / dy\<^sup>2)
    \<and> (\<forall>m'. m' u (IDX i j Ny) = m u (IDX i j Ny) \<and>
           m' u (IDX (i + 1) j Ny) = m u (IDX (i + 1) j Ny) \<and>
           m' u (IDX (i - 1) j Ny) = m u (IDX (i - 1) j Ny) \<and>
           m' u (IDX i (j + 1) Ny) = m u (IDX i (j + 1) Ny) \<and>
           m' u (IDX i (j - 1) Ny) = m u (IDX i (j - 1) Ny) \<longrightarrow>
         run_launch (update_kernel u uNew Nx Ny dx dy alpha dt block) sched m' uNew (IDX i j Ny) =
         run_launch (update_kernel u uNew Nx Ny dx dy alpha dt block) sched m uNew (IDX i j Ny))"
proof -
  have "Nx * 1 \<le> Nx * Ny" using assms by (intro mult_left_mono) simp_all
  with assms(7) have Nx: "Nx < 2 ^ 31" by linarith
  have "1 * Ny \<le> Nx * Ny" using assms by (intro mult_right_mono) simp_all
  with assms(7) have Ny: "Ny < 2 ^ 31" by linarith
  from assms(2) have "set sched = set (launch_threads (grid Nx Ny) block)"
    unfolding is_schedule_def by (rule mset_eq_setD)
  with interior_thread_exists [OF assms(3-6) Nx Ny]
  obtain t where t: "t \<in> set sched" "thread_cell block t = (i, j)" by blast
  have int: "interior Nx Ny (i, j)" using assms by (simp add: interior_def)
  have hit: "\<exists>t \<in> set sched. interior Nx Ny (thread_cell block t) \<and>
      IDX (fst (thread_cell block t)) (snd (thread_cell block t)) Ny = IDX i j Ny"
    using t int by (intro bexI [of _ t]) simp_all
  have j: "0 \<le> j" "j < Ny" using assms by simp_all
  have val: "run_launch (update_kernel u uNew Nx Ny dx dy alpha dt block) sched m0 uNew (IDX i j Ny)
      = stencil (m0 u) Ny dx dy alpha dt i j" for m0
    using hit IDX_div [OF j] IDX_mod [OF j] by (simp add: run_launch_writes [OF assms(1)])
  show ?thesis
    by (simp add: val stencil_def power2_eq_square)
qed

theorem update_kernel_interior_witness:
  "run_launch (update_kernel Alloc1 Alloc2 3 3 1 1 1 1 block) (launch_threads (grid 3 3) block)
     (\<lambda>p k. if p = Alloc1 then (real_of_int k)\<^sup>2 else 0) Alloc2 (IDX 1 1 3) = 36"
  using update_kernel_interior [of Alloc1 Alloc2 3 3 "launch_threads (grid 3 3) block" 1 1 1 1 1 1
      "\<lambda>p k. if p = Alloc1 then (real_of_int k)\<^sup>2 else 0"]
  by (simp add: is_schedule_def IDX_def)


lemma derived_dt_bound:
  assumes "dx \<noteq> 0" "dy \<noteq> 0" "alpha \<noteq> 0"
  shows "alpha * derived_dt alpha dx dy * (1 / dx\<^sup>2 + 1 / dy\<^sup>2) \<le> 0.5"
proof -
  let ?m = "min (dx * dx) (dy * dy)"
  have pos: "0 < dx * dx" "0 < dy * dy" using assms by (auto simp: zero_less_mult_iff)
  have a: "alpha * derived_dt alpha dx dy = ?m / 4"
    using assms by (simp add: derived_dt_def)
  have "?m / (dx * dx) \<le> 1" using pos by (simp add: min_def)
  moreover have "?m / (dy * dy) \<le> 1" using pos by (simp add: min_def)
  ultimately have le: "?m / (dx * dx) + ?m / (dy * dy) \<le> 2" by linarith
  have "alpha * derived_dt alpha dx dy * (1 / dx\<^sup>2 + 1 / dy\<^sup>2)
      = (?m / (dx * dx) + ?m / (dy * dy)) / 4"
    unfolding a by (simp add: power2_eq_square field_simps)
  also have "\<dots> \<le> 2 / 4" using le by (rule divide_right_mono) simp
  finally show ?thesis by simp
qed

text \<open>
  Claim C4. With the domain of \<^verbatim>\<open>main\<close> (\<open>Lx = Ly = 1\<close>), for every grid with
  \<open>Nx, Ny \<ge> 3\<close> and every \<open>alpha > 0\<close>, the derived time step
  \<open>dt = 0.25 * min (dx\<^sup>2) (dy\<^sup>2) / alpha\<close> satisfies
  \<open>alpha * dt * (1 / dx\<^sup>2 + 1 / dy\<^sup>2) \<le> 0.5\<close>.
\<close>

theorem derived_dt_stable:
  assumes "3 \<le> Nx" "3 \<le> Ny" "0 < alpha"
  shows "alpha * derived_dt alpha (spacing 1 Nx) (spacing 1 Ny)
           * (1 / (spacing 1 Nx)\<^sup>2 + 1 / (spacing 1 Ny)\<^sup>2) \<le> 0.5"
proof -
  have "spacing 1 Nx \<noteq> 0" "spacing 1 Ny \<noteq> 0"
    using assms by (simp_all add: spacing_def)
  then show ?thesis using assms by (intro derived_dt_bound) simp_all
qed

theorem derived_dt_stable_witness:
  "(1 / 10000) * derived_dt (1 / 10000) (spacing 1 200) (spacing 1 200)
           * (1 / (spacing 1 200)\<^sup>2 + 1 / (spacing 1 200)\<^sup>2) \<le> (0.5 :: real)"
  using derived_dt_stable [of 200 200 "1 / 10000"] by simp


lemma time_step_pointers:
  "d_u (time_step Nx Ny dx dy alpha dt sched s) = d_uNew s"
  "d_uNew (time_step Nx Ny dx dy alpha dt sched s) = d_u s"
  by (simp_all add: time_step_def Let_def)

lemma time_step_input_kept:
  "d_u s \<noteq> d_uNew s \<Longrightarrow> memory (time_step Nx Ny dx dy alpha dt sched s) (d_u s) = memory s (d_u s)"
  by (simp add: time_step_def Let_def run_launch_reads_kept)

lemma time_step_output:
  "d_u s \<noteq> d_uNew s \<Longrightarrow>
   memory (time_step Nx Ny dx dy alpha dt sched s) (d_uNew s) k =
     (if \<exists>t \<in> set sched. interior Nx Ny (thread_cell block t) \<and>
            IDX (fst (thread_cell block t)) (snd (thread_cell block t)) Ny = k
      then stencil (memory s (d_u s)) Ny dx dy alpha dt (k div Ny) (k mod Ny)
      else memory s (d_uNew s) k)"
  by (simp add: time_step_def Let_def run_launch_writes)

lemma devptr_cases: "u \<noteq> uNew \<Longrightarrow> p = u \<or> p = uNew" for p u uNew :: devptr
  by (cases p; cases u; cases uNew) simp_all

lemma time_step_schedule_independent:
  assumes "d_u s \<noteq> d_uNew s" and "set sched = set sched'"
  shows "time_step Nx Ny dx dy alpha dt sched s = time_step Nx Ny dx dy alpha dt sched' s"
proof -
  have "memory (time_step Nx Ny dx dy alpha dt sched s) p k =
        memory (time_step Nx Ny dx dy alpha dt sched' s) p k" for p k
  proof -
    consider "p = d_u s" | "p = d_uNew s"
      using devptr_cases [OF assms(1), of p] by blast
    then show ?thesis
    proof cases
      case 1
      then show ?thesis by (simp add: time_step_input_kept [OF assms(1)])
    next
      case 2
      then show ?thesis by (simp add: time_step_output [OF assms(1)] assms(2))
    qed
  qed
  then have "memory (time_step Nx Ny dx dy alpha dt sched s) =
        memory (time_step Nx Ny dx dy alpha dt sched' s)"
    by (intro ext)
  then show ?thesis
    by (simp add: device_state.equality time_step_pointers)
qed

lemma time_stepping_snoc:
  "time_stepping Nx Ny dx dy alpha dt (scheds @ [sched]) s =
     time_step Nx Ny dx dy alpha dt sched (time_stepping Nx Ny dx dy alpha dt scheds s)"
  by (induction scheds arbitrary: s) simp_all

lemma time_stepping_distinct:
  "d_u s \<noteq> d_uNew s \<Longrightarrow>
     d_u (time_stepping Nx Ny dx dy alpha dt scheds s) \<noteq> d_uNew (time_stepping Nx Ny dx dy alpha dt scheds s)"
  by (induction scheds arbitrary: s) (simp_all add: time_step_pointers)


text \<open>
  Claim C2. Take any point of the time-stepping loop: \<open>p\<close> is the state before some step,
  \<open>s\<close> the state after it and \<open>s'\<close> the state after the following step. The pointers
  alternate: the step after reads the buffer the step before wrote and writes the buffer
  the step before read, and the two are never the same allocation. The step leaves the
  buffer it reads exactly as the previous step completed it (nothing is updated in
  place), and every cell it writes holds a value computed from that buffer alone, so no
  update sees a value written in the same step; whichever order the threads of the launch
  run in, the resulting state is the same.
\<close>

theorem time_stepping_ping_pong:
  assumes "d_u s0 \<noteq> d_uNew s0"
    and "is_schedule (grid Nx Ny) block sched" and "is_schedule (grid Nx Ny) block sched'"
  shows "let p = time_stepping Nx Ny dx dy alpha dt scheds s0;
             s = time_stepping Nx Ny dx dy alpha dt (scheds @ [prev]) s0;
             s' = time_stepping Nx Ny dx dy alpha dt (scheds @ [prev, sched]) s0
         in s = time_step Nx Ny dx dy alpha dt prev p
          \<and> s' = time_step Nx Ny dx dy alpha dt sched s
          \<and> d_u s = d_uNew p \<and> d_uNew s = d_u p
          \<and> d_u s' = d_uNew s \<and> d_uNew s' = d_u s
          \<and> d_u s \<noteq> d_uNew s
          \<and> memory s' (d_u s) = memory s (d_u s)
          \<and> (\<forall>k. memory s' (d_uNew s) k =
                (if \<exists>t \<in> set (launch_threads (grid Nx Ny) block).
                      interior Nx Ny (thread_cell block t) \<and>
                      IDX (fst (thread_cell block t)) (snd (thread_cell block t)) Ny = k
                 then stencil (memory s (d_u s)) Ny dx dy alpha dt (k div Ny) (k mod Ny)
                 else memory s (d_uNew s) k))
          \<and> time_step Nx Ny dx dy alpha dt sched' s = s'"
proof -
  define p where "p = time_stepping Nx Ny dx dy alpha dt scheds s0"
  define s where "s = time_stepping Nx Ny dx dy alpha dt (scheds @ [prev]) s0"
  define s' where "s' = time_stepping Nx Ny dx dy alpha dt (scheds @ [prev, sched]) s0"
  have sets: "set sched = set (launch_threads (grid Nx Ny) block)" "set sched' = set sched"
    using assms(2,3) unfolding is_schedule_def by (auto dest: mset_eq_setD)
  have s: "s = time_step Nx Ny dx dy alpha dt prev p"
    unfolding s_def p_def by (rule time_stepping_snoc)
  have "scheds @ [prev, sched] = (scheds @ [prev]) @ [sched]" by simp
  then have s': "s' = time_step Nx Ny dx dy alpha dt sched s"
    unfolding s'_def s_def by (simp only: time_stepping_snoc)
  have ne: "d_u s \<noteq> d_uNew s"
    unfolding s_def using assms(1) by (rule time_stepping_distinct)
  have "memory s' (d_u s) = memory s (d_u s)"
    unfolding s' using ne by (rule time_step_input_kept)
  moreover have "memory s' (d_uNew s) k =
      (if \<exists>t \<in> set (launch_threads (grid Nx Ny) block).
            interior Nx Ny (thread_cell block t) \<and>
            IDX (fst (thread_cell block t)) (snd (thread_cell block t)) Ny = k
       then stencil (memory s (d_u s)) Ny dx dy alpha dt (k div Ny) (k mod Ny)
       else memory s (d_uNew s) k)" for k
    unfolding s' by (simp only: time_step_output [OF ne] sets)
  moreover have "time_step Nx Ny dx dy alpha dt sched' s = s'"
    unfolding s' using ne sets(2) by (rule time_step_schedule_independent)
  ultimately show ?thesis
    unfolding Let_def p_def [symmetric] s_def [symmetric] s'_def [symmetric]
    using s s' ne by (simp add: time_step_pointers)
qed

theorem time_stepping_ping_pong_witness:
  "time_step 3 3 1 1 1 1 (rev (launch_threads (grid 3 3) block))
     (time_stepping 3 3 1 1 1 1 [launch_threads (grid 3 3) block]
        (initial_state (\<lambda>k. real_of_int k) (\<lambda>k. 0))) =
   time_stepping 3 3 1 1 1 1 [launch_threads (grid 3 3) block, launch_threads (grid 3 3) block]
     (initial_state (\<lambda>k. real_of_int k) (\<lambda>k. 0))"
  using time_stepping_ping_pong [of "initial_state (\<lambda>k. real_of_int k) (\<lambda>k. 0)" 3 3
      "launch_threads (grid 3 3) block" "rev (launch_threads (grid 3 3) block)"
      1 1 1 1 "[]" "launch_threads (grid 3 3) block"]
  by (simp add: is_schedule_def initial_state_def Let_def)


lemma interior_offset_positive:
  assumes "interior Nx Ny c"
  shows "0 < IDX (fst c) (snd c) Ny"
proof -
  have "0 < Ny" "0 < fst c" "0 < snd c" using assms by (simp_all add: interior_def)
  then have "0 < fst c * Ny" by (intro mult_pos_pos)
  with \<open>0 < snd c\<close> show ?thesis unfolding IDX_def by linarith
qed

lemma time_step_first_offset_stale:
  assumes "d_u s \<noteq> d_uNew s"
  shows "memory (time_step Nx Ny dx dy alpha dt sched s) (d_uNew s) 0 = memory s (d_uNew s) 0"
proof -
  have "\<not> (\<exists>t \<in> set sched. interior Nx Ny (thread_cell block t) \<and>
            IDX (fst (thread_cell block t)) (snd (thread_cell block t)) Ny = 0)"
  proof
    assume "\<exists>t \<in> set sched. interior Nx Ny (thread_cell block t) \<and>
            IDX (fst (thread_cell block t)) (snd (thread_cell block t)) Ny = 0"
    then obtain t where "interior Nx Ny (thread_cell block t)"
      and "IDX (fst (thread_cell block t)) (snd (thread_cell block t)) Ny = 0" by blast
    then show False using interior_offset_positive [of Nx Ny "thread_cell block t"] by simp
  qed
  then show ?thesis unfolding time_step_output [OF assms] by (rule if_not_P)
qed

text \<open>
  Claim C3, which the program does not meet. The kernel writes interior cells only and
  nothing ever fills the boundary cells of the second allocation, so the field a step
  produces has there whatever that allocation held. In the run of \<^verbatim>\<open>main\<close> (200 by 200
  cells), with the second allocation holding zeros, the corner cell \<open>(0, 0)\<close> of the
  field is \<open>exp (- 25)\<close> before the first step and \<open>0\<close> after it, whatever the order of the
  threads.
\<close>

theorem first_step_boundary_not_copied:
  "let Nx = 200; Ny = 200; dx = spacing 1 Nx; dy = spacing 1 Ny; alpha = 1 / 10000;
       dt = derived_dt alpha dx dy;
       s0 = initial_state (host_u 1 1 dx dy Ny) (\<lambda>k. 0);
       s1 = time_step Nx Ny dx dy alpha dt sched s0
   in memory s0 (d_u s0) (IDX 0 0 Ny) = exp (- 25)
    \<and> memory s1 (d_u s1) (IDX 0 0 Ny) = 0
    \<and> memory s1 (d_u s1) (IDX 0 0 Ny) \<noteq> memory s0 (d_u s0) (IDX 0 0 Ny)"
proof -
  define s0 where "s0 = initial_state (host_u 1 1 (spacing 1 200) (spacing 1 200) 200) (\<lambda>k. 0)"
  have ne: "d_u s0 \<noteq> d_uNew s0" by (simp add: s0_def initial_state_def)
  have a: "memory s0 (d_u s0) 0 = exp (- 25)"
    by (simp add: s0_def initial_state_def host_u_def initial_value_def)
  have b: "memory (time_step 200 200 dx dy alpha dt sched s0) (d_uNew s0) 0 = 0" for dx dy alpha dt
    unfolding time_step_first_offset_stale [OF ne]
    by (simp add: s0_def initial_state_def)
  show ?thesis
    unfolding Let_def s0_def [symmetric]
    using a b by (simp add: time_step_pointers IDX_def)
qed

lemma cuda_report_keys:
  "map line_key
     [[Lit ''CUDA run (GPU):''],
      [Lit ''  Time           : '', FNum a ''%.6f'', Lit '' s''],
      [Lit ''  Throughput     : '', FNum b ''%.2f'', Lit '' MLUPS''],
      [Lit ''  u_center (mid) : '', FNum c ''%f'']] =
   [''CUDA run (GPU)'', ''Time'', ''Throughput'', ''u_center (mid)'']"
  by (simp add: line_key_def strip_def)

text \<open>
  Claim C8, which the program does not meet. Whatever the command line, \<^verbatim>\<open>main\<close> runs
  the same computation as with no arguments (200 by 200 cells, 1000 steps), prints four
  lines whose keys are \<^verbatim>\<open>CUDA run (GPU)\<close>, \<^verbatim>\<open>Time\<close>, \<^verbatim>\<open>Throughput\<close> and
  \<^verbatim>\<open>u_center (mid)\<close>, and returns 0.
\<close>

theorem cuda_heat_main_ignores_arguments:
  "cuda_heat_main argv uninit sched_of ms = cuda_heat_main [] uninit sched_of ms
   \<and> map line_key (fst (cuda_heat_main argv uninit sched_of ms)) =
       [''CUDA run (GPU)'', ''Time'', ''Throughput'', ''u_center (mid)'']
   \<and> snd (cuda_heat_main argv uninit sched_of ms) = 0"
  unfolding cuda_heat_main_def Let_def fst_conv snd_conv
  by (simp only: cuda_report_keys simp_thms)

section \<open>Properties of the validation harness\<close>


lemma py_bind_return [simp]: "py_bind (py_return x) f = f x"
  by (simp add: py_bind_def py_return_def fun_eq_iff)

lemma py_bind_raise [simp]: "py_bind (py_raise e) f = py_raise e"
  by (simp add: py_bind_def py_raise_def fun_eq_iff)

lemma py_lift_Inr [simp]: "py_lift (Inr x) = py_return x"
  by (simp add: py_lift_def py_return_def fun_eq_iff)

lemma py_lift_Inl [simp]: "py_lift (Inl e) = py_raise e"
  by (simp add: py_lift_def py_raise_def fun_eq_iff)

lemma py_bind_print: "py_bind (print l) f w = f () (w\<lparr>stdout := stdout w @ [l]\<rparr>)"
  by (simp add: py_bind_def print_def)

lemma set_ravel:
  "set (ravel a) = {item a i j | i j. i < fst (shape a) \<and> j < snd (shape a)}"
  by (fastforce simp: ravel_def)

lemma ravel_nonempty:
  "ravel a \<noteq> [] \<longleftrightarrow> 0 < fst (shape a) \<and> 0 < snd (shape a)"
proof -
  have "ravel a = [] \<longleftrightarrow> set (ravel a) = {}" by simp
  also have "\<dots> \<longleftrightarrow> \<not> (0 < fst (shape a) \<and> 0 < snd (shape a))"
    unfolding set_ravel by auto
  finally show ?thesis by blast
qed

lemma ravel_cong:
  assumes "shape a = shape b"
    and "\<And>i j. i < fst (shape a) \<Longrightarrow> j < snd (shape a) \<Longrightarrow> item a i j = item b i j"
  shows "ravel a = ravel b"
  using assms by (auto simp: ravel_def intro!: arg_cong [where f = concat])

lemma np_max_Inr:
  assumes "0 < fst (shape a)" "0 < snd (shape a)"
  shows "np_max a = Inr (Max (set (ravel a)))"
proof -
  from assms have "ravel a \<noteq> []" by (simp add: ravel_nonempty)
  then obtain x xs where r: "ravel a = x # xs" by (cases "ravel a") auto
  have "fold max xs x = Max (set (x # xs))" by (rule Max.set_eq_fold [symmetric])
  then show ?thesis by (simp add: np_max_def r)
qed

lemma np_max_empty:
  assumes "\<not> (0 < fst (shape a) \<and> 0 < snd (shape a))"
  shows "np_max a = Inl ValueError"
proof -
  from assms have "ravel a = []" using ravel_nonempty [of a] by blast
  then show ?thesis by (simp add: np_max_def)
qed

lemma sum_list_zeros: "(\<And>x. x \<in> set xs \<Longrightarrow> x = (0::real)) \<Longrightarrow> sum_list xs = 0"
  by (induction xs) simp_all

lemma np_mean_zeros:
  assumes "\<And>i j. i < fst (shape a) \<Longrightarrow> j < snd (shape a) \<Longrightarrow> item a i j = 0"
  shows "np_mean a = 0"
proof -
  have "sum_list (ravel a) = 0"
    using assms by (intro sum_list_zeros) (auto simp: set_ravel)
  then show ?thesis by (simp add: np_mean_def)
qed

lemma np_max_zeros:
  assumes "0 < fst (shape a)" "0 < snd (shape a)"
    and "\<And>i j. i < fst (shape a) \<Longrightarrow> j < snd (shape a) \<Longrightarrow> item a i j = 0"
  shows "np_max a = Inr 0"
proof -
  have "item a 0 0 \<in> set (ravel a)"
    unfolding set_ravel using assms(1,2) by blast
  moreover have "x = 0" if "x \<in> set (ravel a)" for x
    using that assms(3) unfolding set_ravel by auto
  ultimately have "0 \<in> set (ravel a)" "\<forall>x \<in> set (ravel a). x = 0" by metis+
  then have "set (ravel a) = {0}" by auto
  then show ?thesis by (simp add: np_max_Inr [OF assms(1,2)])
qed

lemma shape_simps [simp]:
  "shape (np_subtract a b) = shape a" "shape (np_abs a) = shape a"
  "shape (np_square a) = shape a" "shape (np_power a n) = shape a"
  "shape (np_zeros_like a) = shape a" "shape (np_divide a b c d) = shape a"
  by (simp_all add: np_subtract_def np_abs_def np_square_def np_power_def np_zeros_like_def
      np_divide_def)

lemma item_simps [simp]:
  "item (np_subtract a b) i j = item a i j - item b i j"
  "item (np_abs a) i j = \<bar>item a i j\<bar>"
  "item (np_square a) i j = item a i j * item a i j"
  "item (np_power a n) i j = item a i j ^ n"
  "item (np_zeros_like a) i j = 0"
  "item (np_divide a b c d) i j = (if item d i j then item a i j / item b i j else item c i j)"
  "item (np_greater a x) i j = (item a i j > x)"
  by (simp_all add: np_subtract_def np_abs_def np_square_def np_power_def np_zeros_like_def
      np_divide_def np_greater_def)

text \<open>What \<open>calculate_errors\<close> returns on two arrays of one non-empty shape.\<close>

lemma calculate_errors_same_shape:
  assumes "shape r = shape c" "0 < fst (shape r)" "0 < snd (shape r)"
  shows "calculate_errors (Some r) (Some c) name w =
    (Inr (Some
       \<lparr>mse = np_mean (np_square (np_subtract r c)),
        rmse = np_sqrt (np_mean (np_square (np_subtract r c))),
        max_absolute_error = Max (set (ravel (np_abs (np_subtract r c)))),
        method = name,
        mean_absolute_error = np_mean (np_abs (np_subtract r c)),
        max_relative_error = Max (set (ravel (np_divide (np_abs (np_subtract r c)) (np_abs r)
            (np_zeros_like (np_abs (np_subtract r c))) (np_greater (np_abs r) (1 / 10 ^ 15))))),
        mean_relative_error = np_mean (np_divide (np_abs (np_subtract r c)) (np_abs r)
            (np_zeros_like (np_abs (np_subtract r c))) (np_greater (np_abs r) (1 / 10 ^ 15))),
        std_absolute_error = np_std (np_abs (np_subtract r c)),
        absolute_errors = np_abs (np_subtract r c),
        relative_errors = np_divide (np_abs (np_subtract r c)) (np_abs r)
            (np_zeros_like (np_abs (np_subtract r c))) (np_greater (np_abs r) (1 / 10 ^ 15))\<rparr>), w)"
  using assms
  by (simp add: calculate_errors_def Let_def np_max_Inr py_return_def)

lemma calculate_errors_empty:
  assumes "shape r = shape c" "\<not> (0 < fst (shape r) \<and> 0 < snd (shape r))"
  shows "calculate_errors (Some r) (Some c) name w = (Inl ValueError, w)"
  using assms
  by (simp add: calculate_errors_def Let_def np_max_empty py_raise_def)


text \<open>
  Claim C5, as amended. For every dataset with at least one cell, comparing the dataset
  with itself by \<open>calculate_errors\<close> returns metrics with \<open>mse = 0\<close>, \<open>rmse = 0\<close>,
  \<open>max_absolute_error = 0\<close> and \<open>mean_absolute_error = 0\<close>, and prints nothing.
\<close>

theorem calculate_errors_self_nonempty:
  assumes "0 < fst (shape a)" "0 < snd (shape a)"
  shows "\<exists>m. calculate_errors (Some a) (Some a) name w = (Inr (Some m), w)
           \<and> mse m = 0 \<and> rmse m = 0 \<and> max_absolute_error m = 0 \<and> mean_absolute_error m = 0"
proof -
  have max0: "np_max (np_abs (np_subtract a a)) = Inr 0"
    using assms by (intro np_max_zeros) simp_all
  have "Max (set (ravel (np_abs (np_subtract a a)))) = 0"
    using max0 assms by (simp add: np_max_Inr)
  moreover have "np_mean (np_square (np_subtract a a)) = 0"
    by (intro np_mean_zeros) simp
  moreover have "np_mean (np_abs (np_subtract a a)) = 0"
    by (intro np_mean_zeros) simp
  ultimately show ?thesis
    using assms by (simp add: calculate_errors_same_shape np_sqrt_def)
qed

theorem calculate_errors_self_witness:
  "\<exists>m. calculate_errors (Some \<lparr>shape = (1, 2), item = (\<lambda>i j. real (i + j))\<rparr>)
             (Some \<lparr>shape = (1, 2), item = (\<lambda>i j. real (i + j))\<rparr>) ''cuda''
             \<lparr>stdout = [], files = (\<lambda>n. None)\<rparr>
          = (Inr (Some m), \<lparr>stdout = [], files = (\<lambda>n. None)\<rparr>)
        \<and> mse m = 0 \<and> rmse m = 0 \<and> max_absolute_error m = 0 \<and> mean_absolute_error m = 0"
  using calculate_errors_self_nonempty [of "\<lparr>shape = (1, 2), item = (\<lambda>i j. real (i + j))\<rparr>"
      "''cuda''" "\<lparr>stdout = [], files = (\<lambda>n. None)\<rparr>"]
  by simp

text \<open>
  The claim as stated, for every dataset, fails on a dataset without cells (a table with
  a header row and no data rows has shape \<open>(0, n)\<close>): \<^verbatim>\<open>np.max\<close> raises \<^verbatim>\<open>ValueError\<close> and
  no metrics are returned.
\<close>

theorem calculate_errors_self_empty_raises:
  "calculate_errors (Some \<lparr>shape = (0, 3), item = (\<lambda>i j. 0)\<rparr>)
       (Some \<lparr>shape = (0, 3), item = (\<lambda>i j. 0)\<rparr>) ''cuda''
       \<lparr>stdout = [], files = (\<lambda>n. None)\<rparr>
     = (Inl ValueError, \<lparr>stdout = [], files = (\<lambda>n. None)\<rparr>)"
  by (simp add: calculate_errors_empty)

text \<open>
  Claim C7. For a reference and a comparison array of the same shape and every cell
  \<open>(i, j)\<close> of that shape, \<open>calculate_errors\<close> returns error maps of that shape with
  \<open>absolute_error = \<bar>reference - comparison\<bar>\<close> at the cell, and
  \<open>relative_error = absolute_error / \<bar>reference\<bar>\<close> where \<open>\<bar>reference\<bar> > 1e-15\<close> and \<open>0\<close>
  elsewhere.
\<close>

theorem calculate_errors_elementwise:
  assumes "shape reference = shape comparison"
    and "i < fst (shape reference)" "j < snd (shape reference)"
  shows "\<exists>m. calculate_errors (Some reference) (Some comparison) name w = (Inr (Some m), w)
           \<and> shape (absolute_errors m) = shape reference
           \<and> shape (relative_errors m) = shape reference
           \<and> item (absolute_errors m) i j = \<bar>item reference i j - item comparison i j\<bar>
           \<and> item (relative_errors m) i j =
               (if \<bar>item reference i j\<bar> > 1 / 10 ^ 15
                then \<bar>item reference i j - item comparison i j\<bar> / \<bar>item reference i j\<bar>
                else 0)"
proof -
  have "0 < fst (shape reference)" "0 < snd (shape reference)" using assms by simp_all
  then show ?thesis
    using assms(1) by (simp add: calculate_errors_same_shape)
qed

theorem calculate_errors_elementwise_witness:
  "\<exists>m. calculate_errors (Some \<lparr>shape = (1, 2), item = (\<lambda>i j. real j)\<rparr>)
             (Some \<lparr>shape = (1, 2), item = (\<lambda>i j. 3)\<rparr>) ''cuda''
             \<lparr>stdout = [], files = (\<lambda>n. None)\<rparr>
          = (Inr (Some m), \<lparr>stdout = [], files = (\<lambda>n. None)\<rparr>)
        \<and> item (absolute_errors m) 0 0 = 3 \<and> item (relative_errors m) 0 0 = 0
        \<and> item (absolute_errors m) 0 1 = 2 \<and> item (relative_errors m) 0 1 = 2"
  using calculate_errors_elementwise [of "\<lparr>shape = (1, 2), item = (\<lambda>i j. real j)\<rparr>"
      "\<lparr>shape = (1, 2), item = (\<lambda>i j. 3)\<rparr>" 0 0 "''cuda''" "\<lparr>stdout = [], files = (\<lambda>n. None)\<rparr>"]
    calculate_errors_elementwise [of "\<lparr>shape = (1, 2), item = (\<lambda>i j. real j)\<rparr>"
      "\<lparr>shape = (1, 2), item = (\<lambda>i j. 3)\<rparr>" 0 1 "''cuda''" "\<lparr>stdout = [], files = (\<lambda>n. None)\<rparr>"]
  by auto


lemma np_abs_subtract_commute:
  "shape a = shape b \<Longrightarrow> np_abs (np_subtract a b) = np_abs (np_subtract b a)"
  by (simp add: np_abs_def np_subtract_def abs_minus_commute)

lemma np_square_subtract_commute:
  "shape a = shape b \<Longrightarrow> np_square (np_subtract a b) = np_square (np_subtract b a)"
proof -
  have "(x - y) * (x - y) = (y - x) * (y - x)" for x y :: real
    by (simp add: algebra_simps)
  then show "shape a = shape b \<Longrightarrow> ?thesis"
    by (simp add: np_square_def np_subtract_def)
qed

text \<open>
  Claim C10. Swapping the two arrays given to \<open>calculate_errors\<close> does not change what
  it returns for \<open>mse\<close>, \<open>rmse\<close>, \<open>max_absolute_error\<close>, \<open>mean_absolute_error\<close> and
  \<open>std_absolute_error\<close> (nor whether it returns metrics, \<^verbatim>\<open>None\<close> or raises); in
  particular, on two arrays of one shape with at least one cell both calls return metrics
  and these five agree.
\<close>

theorem calculate_errors_absolute_metrics_symmetric:
  "map_sum id (map_option (\<lambda>m. (mse m, rmse m, max_absolute_error m, mean_absolute_error m,
                               std_absolute_error m)))
     (fst (calculate_errors (Some a) (Some b) name w)) =
   map_sum id (map_option (\<lambda>m. (mse m, rmse m, max_absolute_error m, mean_absolute_error m,
                               std_absolute_error m)))
     (fst (calculate_errors (Some b) (Some a) name w))
   \<and> (shape a = shape b \<and> 0 < fst (shape a) \<and> 0 < snd (shape a) \<longrightarrow>
        (\<exists>m1 m2. calculate_errors (Some a) (Some b) name w = (Inr (Some m1), w)
           \<and> calculate_errors (Some b) (Some a) name w = (Inr (Some m2), w)
           \<and> mse m1 = mse m2 \<and> rmse m1 = rmse m2
           \<and> max_absolute_error m1 = max_absolute_error m2
           \<and> mean_absolute_error m1 = mean_absolute_error m2
           \<and> std_absolute_error m1 = std_absolute_error m2))"
proof (cases "shape a = shape b")
  case False
  then have "shape b \<noteq> shape a" by auto
  with False show ?thesis
    by (simp add: calculate_errors_def py_bind_print py_return_def)
next
  case same: True
  show ?thesis
  proof (cases "0 < fst (shape a) \<and> 0 < snd (shape a)")
    case True
    then have "0 < fst (shape b) \<and> 0 < snd (shape b)" using same by simp
    with True same show ?thesis
      by (simp add: calculate_errors_same_shape
          np_abs_subtract_commute [of a b] np_square_subtract_commute [of a b])
  next
    case False
    then have "\<not> (0 < fst (shape b) \<and> 0 < snd (shape b))" using same by simp
    with False same show ?thesis
      by (auto simp add: calculate_errors_empty)
  qed
qed


theorem calculate_errors_absolute_metrics_symmetric_witness:
  "\<exists>m1 m2.
     calculate_errors (Some \<lparr>shape = (1, 2), item = (\<lambda>i j. real j)\<rparr>)
       (Some \<lparr>shape = (1, 2), item = (\<lambda>i j. 3)\<rparr>) ''cuda'' \<lparr>stdout = [], files = (\<lambda>n. None)\<rparr>
       = (Inr (Some m1), \<lparr>stdout = [], files = (\<lambda>n. None)\<rparr>)
   \<and> calculate_errors (Some \<lparr>shape = (1, 2), item = (\<lambda>i j. 3)\<rparr>)
       (Some \<lparr>shape = (1, 2), item = (\<lambda>i j. real j)\<rparr>) ''cuda'' \<lparr>stdout = [], files = (\<lambda>n. None)\<rparr>
       = (Inr (Some m2), \<lparr>stdout = [], files = (\<lambda>n. None)\<rparr>)
   \<and> mse m1 = mse m2 \<and> rmse m1 = rmse m2
   \<and> max_absolute_error m1 = max_absolute_error m2
   \<and> mean_absolute_error m1 = mean_absolute_error m2
   \<and> std_absolute_error m1 = std_absolute_error m2"
  using calculate_errors_absolute_metrics_symmetric
    [of "\<lparr>shape = (1, 2), item = (\<lambda>i j. real j)\<rparr>" "\<lparr>shape = (1, 2), item = (\<lambda>i j. 3)\<rparr>"
        "''cuda''" "\<lparr>stdout = [], files = (\<lambda>n. None)\<rparr>"]
  by simp

lemma loads_or_fails: "fails_to_load fs n \<or> (\<exists>a. loads fs n a)"
  by (auto simp: loads_def fails_to_load_def split: option.splits sum.splits)

lemma read_header_error: "read_header ls m = Inl e \<Longrightarrow> e = ValueError"
  by (induction ls m rule: read_header.induct) simp_all

lemma load_heat_data_loads:
  assumes "loads fs n a"
  shows "py_bind (load_heat_data fs n) (\<lambda>(d, meta). k d) w =
     k (Some a) (w\<lparr>stdout := stdout w @ [[Lit ''Loaded '', FStr n [], Lit '': Shape '', FShape (shape a)]]\<rparr>)"
  using assms
  by (auto simp: loads_def load_heat_data_def print_def py_bind_def py_return_def py_lift_def
      split: option.splits sum.splits)

text \<open>
  A file that fails to load ends the loading block with an exception: the loader raises
  \<^verbatim>\<open>ValueError\<close> itself (a header conversion), or it returns \<^verbatim>\<open>None\<close> and the shape of
  \<^verbatim>\<open>None\<close> is read next. Nothing of the continuation \<open>k\<close> runs.
\<close>

lemma load_heat_data_fails:
  assumes "fails_to_load fs n" and "files w = F"
  shows "\<exists>e w'. py_bind (load_heat_data fs n) (\<lambda>(d, meta). py_bind (the_array d) (k d)) w = (Inl e, w')
           \<and> (e = AttributeError \<or> e = ValueError) \<and> files w' = F"
  using assms
  by (auto simp: fails_to_load_def load_heat_data_def py_bind_def py_return_def
      py_lift_def py_raise_def the_array_def print_def
      split: option.splits sum.splits dest: read_header_error)

lemma the_array_Some [simp]: "the_array (Some a) = py_return a"
  by (simp add: the_array_def)


lemma load_all_fails:
  assumes "fails_to_load fs ''serial_heat_distribution.csv''
         \<or> fails_to_load fs ''openmp_heat_distribution.csv''
         \<or> fails_to_load fs ''cuda_heat_distribution.csv''
         \<or> fails_to_load fs ''hybrid_heat_distribution.csv''"
  shows "\<exists>e w'. load_all fs w = (Inl e, w') \<and> (e = AttributeError \<or> e = ValueError)
           \<and> files w' = files w"
proof (cases "fails_to_load fs ''serial_heat_distribution.csv''")
  case True
  show ?thesis
    unfolding load_all_def by (rule load_heat_data_fails [OF True]) simp
next
  case f1: False
  then obtain s where s: "loads fs ''serial_heat_distribution.csv'' s"
    using loads_or_fails by blast
  show ?thesis
  proof (cases "fails_to_load fs ''openmp_heat_distribution.csv''")
    case True
    show ?thesis
      unfolding load_all_def
      apply (simp only: load_heat_data_loads [OF s] the_array_Some py_bind_return py_bind_print)
      apply (rule load_heat_data_fails [OF True])
      apply simp
      done
  next
    case f2: False
    then obtain o' where o': "loads fs ''openmp_heat_distribution.csv'' o'"
      using loads_or_fails by blast
    show ?thesis
    proof (cases "fails_to_load fs ''cuda_heat_distribution.csv''")
      case True
      show ?thesis
        unfolding load_all_def
        apply (simp only: load_heat_data_loads [OF s] load_heat_data_loads [OF o']
            the_array_Some py_bind_return py_bind_print)
        apply (rule load_heat_data_fails [OF True])
        apply simp
        done
    next
      case f3: False
      then obtain c where c: "loads fs ''cuda_heat_distribution.csv'' c"
        using loads_or_fails by blast
      from f1 f2 f3 assms have f4: "fails_to_load fs ''hybrid_heat_distribution.csv''" by blast
      show ?thesis
        unfolding load_all_def
        apply (simp only: load_heat_data_loads [OF s] load_heat_data_loads [OF o']
            load_heat_data_loads [OF c] the_array_Some py_bind_return py_bind_print)
        apply (rule load_heat_data_fails [OF f4])
        apply simp
        done
    qed
  qed
qed

text \<open>
  An exception of the loading block that is not \<^verbatim>\<open>FileNotFoundError\<close> passes the handler
  of \<^verbatim>\<open>main\<close> and ends the pass where it was raised.
\<close>

lemma main_when_load_all_raises:
  assumes "load_all fs (w\<lparr>stdout := stdout w @ [[Lit ''Heat Equation Solver Error Analysis''],
              [Lit (replicate 50 (CHR ''=''))]]\<rparr>) = (Inl e, w')"
    and "e \<noteq> FileNotFoundError"
  shows "heat_error_analysis_main fs now w = (Inl e, w')"
proof -
  let ?w = "w\<lparr>stdout := stdout w @ [[Lit ''Heat Equation Solver Error Analysis''],
              [Lit (replicate 50 (CHR ''=''))]]\<rparr>"
  have a: "py_bind (load_all fs) (\<lambda>loaded. py_return (Some loaded)) ?w = (Inl e, w')"
    by (simp add: py_bind_def assms(1))
  have b: "py_except (py_bind (load_all fs) (\<lambda>loaded. py_return (Some loaded)))
             FileNotFoundError handler ?w = (Inl e, w')" for handler
    by (simp add: py_except_def a assms(2))
  show ?thesis
    unfolding heat_error_analysis_main_def
    by (simp add: py_bind_print py_bind_def [of "py_except _ _ _"] b del: compare_methods.simps)
qed

text \<open>
  Claim C9, which the program does not meet. Whenever one of the four result files is
  missing or corrupt, \<^verbatim>\<open>main\<close> ends with the exception the loading block raised,
  \<^verbatim>\<open>AttributeError\<close> or \<^verbatim>\<open>ValueError\<close>, in the state the loading block left: its handler
  for \<^verbatim>\<open>FileNotFoundError\<close> does not run, no method is compared or skipped, and no
  report is written.
\<close>

theorem main_aborts_when_a_file_fails:
  assumes "fails_to_load fs ''serial_heat_distribution.csv''
         \<or> fails_to_load fs ''openmp_heat_distribution.csv''
         \<or> fails_to_load fs ''cuda_heat_distribution.csv''
         \<or> fails_to_load fs ''hybrid_heat_distribution.csv''"
  shows "\<exists>e w'. heat_error_analysis_main fs now w = (Inl e, w')
           \<and> load_all fs (w\<lparr>stdout := stdout w @ [[Lit ''Heat Equation Solver Error Analysis''],
                 [Lit (replicate 50 (CHR ''=''))]]\<rparr>) = (Inl e, w')
           \<and> (e = AttributeError \<or> e = ValueError)
           \<and> files w' = files w"
proof -
  let ?w = "w\<lparr>stdout := stdout w @ [[Lit ''Heat Equation Solver Error Analysis''],
              [Lit (replicate 50 (CHR ''=''))]]\<rparr>"
  from load_all_fails [OF assms, of ?w] obtain e w' where
    l: "load_all fs ?w = (Inl e, w')" and e: "e = AttributeError \<or> e = ValueError"
    and f: "files w' = files w"
    by auto
  from e have "e \<noteq> FileNotFoundError" by auto
  from main_when_load_all_raises [OF l this] l e f show ?thesis by blast
qed


theorem main_aborts_when_a_file_fails_witness:
  "\<exists>e w'. heat_error_analysis_main
       (\<lambda>n. if n = ''cuda_heat_distribution.csv'' then None
            else Some \<lparr>header = [], table = Inr \<lparr>shape = (1, 1), item = (\<lambda>i j. 1)\<rparr>\<rparr>)
       ''2025-01-01 00:00:00'' \<lparr>stdout = [], files = (\<lambda>n. None)\<rparr> = (Inl e, w')
     \<and> load_all
       (\<lambda>n. if n = ''cuda_heat_distribution.csv'' then None
            else Some \<lparr>header = [], table = Inr \<lparr>shape = (1, 1), item = (\<lambda>i j. 1)\<rparr>\<rparr>)
       \<lparr>stdout = [[Lit ''Heat Equation Solver Error Analysis''], [Lit (replicate 50 (CHR ''=''))]],
        files = (\<lambda>n. None)\<rparr> = (Inl e, w')
     \<and> (e = AttributeError \<or> e = ValueError)
     \<and> files w' = (\<lambda>n. None)"
  using main_aborts_when_a_file_fails
    [of "\<lambda>n. if n = ''cuda_heat_distribution.csv'' then None
            else Some \<lparr>header = [], table = Inr \<lparr>shape = (1, 1), item = (\<lambda>i j. 1)\<rparr>\<rparr>"
        "''2025-01-01 00:00:00''" "\<lparr>stdout = [], files = (\<lambda>n. None)\<rparr>"]
  by (simp add: fails_to_load_def)

text \<open>
  The run with the GPU result missing and the other three files holding one cell each,
  in full: the loader reports the missing file and returns \<^verbatim>\<open>None\<close>, and reading the
  shape of \<^verbatim>\<open>None\<close> ends the pass.
\<close>

lemma main_aborts_on_missing_file:
  "heat_error_analysis_main
      (\<lambda>n. if n = ''cuda_heat_distribution.csv'' then None
           else Some \<lparr>header = [], table = Inr \<lparr>shape = (1, 1), item = (\<lambda>i j. 1)\<rparr>\<rparr>)
      ''2025-01-01 00:00:00'' \<lparr>stdout = [], files = (\<lambda>n. None)\<rparr>
   = (Inl AttributeError,
      \<lparr>stdout =
         [[Lit ''Heat Equation Solver Error Analysis''],
          [Lit (replicate 50 (CHR ''=''))],
          [Lit ''Loaded '', FStr ''serial_heat_distribution.csv'' [], Lit '': Shape '', FShape (1, 1)],
          [Lit ''Loaded serial_heat_distribution.csv: Shape '', FShape (1, 1)],
          [Lit ''Loaded '', FStr ''openmp_heat_distribution.csv'' [], Lit '': Shape '', FShape (1, 1)],
          [Lit ''Loaded openmp_heat_distribution.csv: Shape '', FShape (1, 1)],
          [Lit ''Error: File '', FStr ''cuda_heat_distribution.csv'' [], Lit '' not found!'']],
       files = (\<lambda>n. None)\<rparr>)"
  by (simp add: heat_error_analysis_main_def load_all_def load_heat_data_def py_bind_def
      py_except_def print_def py_return_def py_raise_def py_lift_def the_array_def)









end
